theory Spec2Isabelle
  imports Main "HOL-Library.Char_ord" "HOL-Library.List_Lexorder" "HOL-Library.AList" "HOL-Library.Sublist"
begin

section \<open>Python string primitives\<close>

text \<open>
  Python \<open>str\<close> values are modelled as \<open>string\<close> (a list of 8-bit characters).
  The character classes are the ASCII ones: \<open>str.isspace\<close> / the regex class \<open>\s\<close>
  hold of the codes 9 to 13 and 28 to 32, the regex class \<open>\w\<close> of letters, digits and
  the underscore, \<open>\d\<close> of the ten digits, and \<open>str.lower\<close> moves \<open>A-Z\<close> to \<open>a-z\<close>.
\<close>

definition isspace :: "char \<Rightarrow> bool" where
  "isspace c = (let n = (of_char c :: int) in (9 \<le> n \<and> n \<le> 13) \<or> (28 \<le> n \<and> n \<le> 32))"

definition isdigit :: "char \<Rightarrow> bool" where
  "isdigit c = (let n = (of_char c :: int) in 48 \<le> n \<and> n \<le> 57)"

definition isword :: "char \<Rightarrow> bool" where
  "isword c = (let n = (of_char c :: int) in
     (48 \<le> n \<and> n \<le> 57) \<or> (65 \<le> n \<and> n \<le> 90) \<or> (97 \<le> n \<and> n \<le> 122) \<or> n = 95)"

definition lower_char :: "char \<Rightarrow> char" where
  "lower_char c = (let n = (of_char c :: int) in
     if 65 \<le> n \<and> n \<le> 90 then char_of (n + 32) else c)"

definition lower :: "string \<Rightarrow> string" where
  "lower s = map lower_char s"

definition lstrip :: "string \<Rightarrow> string" where
  "lstrip s = dropWhile isspace s"

definition rstrip :: "string \<Rightarrow> string" where
  "rstrip s = rev (dropWhile isspace (rev s))"

definition strip :: "string \<Rightarrow> string" where
  "strip s = rstrip (lstrip s)"

section \<open>Entity resolver: name normalisation (network\_builder.py)\<close>

text \<open>\<open>re.sub(r'\s+', ' ', name)\<close>: every maximal run of whitespace becomes one blank.\<close>

function collapse_ws :: "string \<Rightarrow> string" where
  "collapse_ws [] = []"
| "collapse_ws (c # cs) =
     (if isspace c then CHR '' '' # collapse_ws (dropWhile isspace cs)
      else c # collapse_ws cs)"
  by pat_completeness auto
termination
  by (relation "measure length") (auto simp: length_dropWhile_le less_Suc_eq_le)

text \<open>
  \<open>normalize_name\<close>: a falsy name gives the empty string; otherwise strip and lower-case,
  delete every character that is neither \<open>\w\<close> nor \<open>\s\<close>, collapse whitespace, strip.
\<close>

definition normalize_name :: "string \<Rightarrow> string" where
  "normalize_name name =
     (if name = [] then []
      else strip (collapse_ws (filter (\<lambda>c. isword c \<or> isspace c) (lower (strip name)))))"


section \<open>Chat export parser (data\_loader.py)\<close>

text \<open>
  Python slicing \<open>xs[a:b]\<close> with integer bounds: a negative bound counts from the end and
  both bounds are clamped to the list. \<open>str.rfind\<close> of a one-character needle is the
  highest index holding it, or \<open>-1\<close>.
\<close>

definition slice_index :: "nat \<Rightarrow> int \<Rightarrow> nat" where
  "slice_index n i = (if i < 0 then nat (max 0 (int n + i)) else min n (nat i))"

definition py_slice :: "'a list \<Rightarrow> int \<Rightarrow> int \<Rightarrow> 'a list" where
  "py_slice xs a b =
     (let lo = slice_index (length xs) a; hi = slice_index (length xs) b
      in take (hi - lo) (drop lo xs))"

definition rfind :: "char \<Rightarrow> string \<Rightarrow> int" where
  "rfind c s =
     (if c \<in> set s then int (length s) - 1 - int (length (takeWhile (\<lambda>x. x \<noteq> c) (rev s)))
      else - 1)"

definition endswith_char :: "string \<Rightarrow> char \<Rightarrow> bool" where
  "endswith_char s c = (s \<noteq> [] \<and> last s = c)"

fun consume :: "string \<Rightarrow> string \<Rightarrow> string option" where
  "consume [] s = Some s"
| "consume (p # ps) [] = None"
| "consume (p # ps) (c # cs) = (if p = c then consume ps cs else None)"

fun iso_date_T :: "string \<Rightarrow> bool" where
  "iso_date_T [y1, y2, y3, y4, h1, m1, m2, h2, d1, d2, t] =
     (isdigit y1 \<and> isdigit y2 \<and> isdigit y3 \<and> isdigit y4 \<and> h1 = CHR ''-'' \<and>
      isdigit m1 \<and> isdigit m2 \<and> h2 = CHR ''-'' \<and> isdigit d1 \<and> isdigit d2 \<and> t = CHR ''T'')"
| "iso_date_T _ = False"

definition msg_pat :: "string \<Rightarrow> (string \<times> string \<times> string) option" where
  "msg_pat line =
     (case consume ''- ['' line of
        None \<Rightarrow> None
      | Some r1 \<Rightarrow>
          if \<not> iso_date_T (take 11 r1) then None
          else
            let t = takeWhile (\<lambda>c. c \<noteq> CHR '']'') (drop 11 r1);
                r2 = dropWhile (\<lambda>c. c \<noteq> CHR '']'') (drop 11 r1)
            in if t = [] then None
               else
                 (case consume ''] **'' r2 of
                    None \<Rightarrow> None
                  | Some r3 \<Rightarrow>
                      (case consume ''**: '' (dropWhile (\<lambda>c. c \<noteq> CHR ''*'') r3) of
                         None \<Rightarrow> None
                       | Some r4 \<Rightarrow>
                           let g3 = takeWhile (\<lambda>c. c \<noteq> CHR 0x0A) r4
                           in if g3 = [] then None
                              else Some (take 11 r1 @ t,
                                         takeWhile (\<lambda>c. c \<noteq> CHR ''*'') r3, g3))))"

definition split_source :: "string \<Rightarrow> string \<times> string" where
  "split_source g3 =
     (let body = strip g3; idx = rfind (CHR ''('') body
      in if idx > 0 \<and> endswith_char body (CHR '')'')
         then (strip (py_slice body 0 idx), py_slice body (idx + 1) (- 1))
         else (body, []))"

record chat_message =
  msg_timestamp :: string
  msg_sender :: string
  msg_body :: string
  msg_source :: string

definition chat_record :: "string \<Rightarrow> chat_message option" where
  "chat_record line =
     (case msg_pat line of
        None \<Rightarrow> None
      | Some (ts, sender, g3) \<Rightarrow>
          (case split_source g3 of
             (body, source) \<Rightarrow>
               Some \<lparr>msg_timestamp = ts, msg_sender = sender, msg_body = body,
                     msg_source = source\<rparr>))"

fun parse_chats_loop :: "chat_message list \<Rightarrow> string list \<Rightarrow> chat_message list" where
  "parse_chats_loop messages [] = messages"
| "parse_chats_loop messages (line # rest) =
     (case chat_record line of
        None \<Rightarrow> parse_chats_loop messages rest
      | Some m \<Rightarrow> parse_chats_loop (messages @ [m]) rest)"

definition parse_chats :: "string list \<Rightarrow> chat_message list" where
  "parse_chats lines = parse_chats_loop [] lines"

definition chat_line :: "chat_message \<Rightarrow> string" where
  "chat_line m =
     ''- ['' @ msg_timestamp m @ ''] **'' @ msg_sender m @ ''**: '' @ msg_body m @
     '' ('' @ msg_source m @ '')''"

section \<open>Chat thread parser (data\_loader.py)\<close>

text \<open>
  \<open>parse_chat_threads\<close> reads the same lines as \<open>parse_chats\<close> and groups the records into
  threads. The loop state is the list of finished threads, the current thread (or \<open>None\<close>)
  and the thread counter. A Python \<open>set\<close> of participants is kept as a duplicate-free list;
  the returned dictionary \<open>{thread_id: messages}\<close> is an association list in insertion order.
\<close>

definition header_pat :: "string \<Rightarrow> string option" where
  "header_pat line =
     (case consume ''### Chat: '' line of
        None \<Rightarrow> None
      | Some r \<Rightarrow>
          let g = takeWhile (\<lambda>c. c \<noteq> CHR 0x0A) r in if g = [] then None else Some g)"

definition started_pat :: "string \<Rightarrow> string option" where
  "started_pat line =
     (case consume ''**Started:** '' line of
        None \<Rightarrow> None
      | Some r \<Rightarrow>
          let g = takeWhile (\<lambda>c. c \<noteq> CHR 0x0A) r in if g = [] then None else Some g)"

record chat_thread =
  thread_id :: nat
  thread_source :: string
  started :: string
  messages :: "chat_message list"
  participants :: "string list"

record thread_state =
  threads :: "chat_thread list"
  current_thread :: "chat_thread option"
  thread_counter :: nat

definition flush_thread :: "chat_thread list \<Rightarrow> chat_thread option \<Rightarrow> chat_thread list" where
  "flush_thread ths cur =
     (case cur of
        None \<Rightarrow> ths
      | Some t \<Rightarrow> if messages t \<noteq> [] then ths @ [t] else ths)"

definition set_add :: "'a \<Rightarrow> 'a list \<Rightarrow> 'a list" where
  "set_add x xs = (if x \<in> set xs then xs else xs @ [x])"

definition thread_line :: "thread_state \<Rightarrow> string \<Rightarrow> thread_state" where
  "thread_line s line =
     (case header_pat line of
        Some g \<Rightarrow>
          \<lparr>threads = flush_thread (threads s) (current_thread s),
           current_thread = Some \<lparr>thread_id = thread_counter s + 1, thread_source = strip g,
             started = [], messages = [], participants = []\<rparr>,
           thread_counter = thread_counter s + 1\<rparr>
      | None \<Rightarrow>
          (case (current_thread s, started_pat line) of
             (Some t, Some g) \<Rightarrow> s\<lparr>current_thread := Some (t\<lparr>started := strip g\<rparr>)\<rparr>
           | _ \<Rightarrow>
               (case msg_pat line of
                  None \<Rightarrow> s
                | Some (ts, sender, g3) \<Rightarrow>
                    (case split_source g3 of
                       (body, source) \<Rightarrow>
                         let n = (case current_thread s of
                                    None \<Rightarrow> thread_counter s + 1
                                  | Some t \<Rightarrow> thread_counter s);
                             t = (case current_thread s of
                                    None \<Rightarrow>
                                      \<lparr>thread_id = thread_counter s + 1,
                                       thread_source =
                                         (if source \<noteq> [] then source else ''Unknown''),
                                       started = ts, messages = [], participants = []\<rparr>
                                  | Some t \<Rightarrow> t)
                         in \<lparr>threads = threads s,
                             current_thread = Some (t\<lparr>
                               messages := messages t @
                                 [\<lparr>msg_timestamp = ts, msg_sender = sender, msg_body = body,
                                   msg_source = source\<rparr>],
                               participants :=
                                 (if sender \<noteq> [] then set_add sender (participants t)
                                  else participants t)\<rparr>),
                             thread_counter = n\<rparr>))))"

record thread_summary =
  sm_thread_id :: nat
  sm_source :: string
  sm_participants :: "string list"
  message_count :: nat
  first_date :: string
  last_date :: string
  last_message_preview :: string

definition summarize :: "chat_thread \<Rightarrow> thread_summary" where
  "summarize t =
     (let msgs = messages t;
          first = (if msgs \<noteq> [] then msg_timestamp (hd msgs) else started t)
      in \<lparr>sm_thread_id = thread_id t,
          sm_source = thread_source t,
          sm_participants = (if participants t \<noteq> [] then participants t else [''Unknown'']),
          message_count = length msgs,
          first_date = first,
          last_date = (if msgs \<noteq> [] then msg_timestamp (last msgs) else first),
          last_message_preview = (if msgs \<noteq> [] then take 150 (msg_body (last msgs)) else [])\<rparr>)"

definition parse_chat_threads ::
  "string list \<Rightarrow> thread_summary list \<times> (nat \<times> chat_message list) list" where
  "parse_chat_threads lines =
     (let s = foldl thread_line
                \<lparr>threads = [], current_thread = None, thread_counter = 0\<rparr> lines;
          ths = flush_thread (threads s) (current_thread s)
      in (map summarize ths,
          foldl (\<lambda>d t. AList.update (thread_id t) (messages t) d) [] ths))"

definition get_thread_messages ::
  "(nat \<times> chat_message list) list \<Rightarrow> nat \<Rightarrow> chat_message list" where
  "get_thread_messages d tid = (case map_of d tid of None \<Rightarrow> [] | Some msgs \<Rightarrow> msgs)"


text \<open>Proof-side notions: every thread of a loop state, the records one line yields, and the
  ordering of thread numbers that the loop maintains.\<close>

definition all_threads :: "thread_state \<Rightarrow> chat_thread list" where
  "all_threads s = threads s @ (case current_thread s of None \<Rightarrow> [] | Some t \<Rightarrow> [t])"

definition line_messages :: "string \<Rightarrow> chat_message list" where
  "line_messages line = (case chat_record line of None \<Rightarrow> [] | Some m \<Rightarrow> [m])"

definition thread_inv :: "thread_state \<Rightarrow> bool" where
  "thread_inv s \<longleftrightarrow>
     sorted_wrt (<) (map thread_id (all_threads s)) \<and>
     list_all (\<lambda>t. thread_id t \<le> thread_counter s) (all_threads s)"

section \<open>Entity resolver: matching a name to a primary participant (network\_builder.py)\<close>

text \<open>
  \<open>p in s\<close> on strings is \<open>contains p s\<close>; \<open>str.split()\<close> without arguments is \<open>py_split\<close>.
  The dictionaries \<open>PRIMARY_PEOPLE\<close> and \<open>NAME_ALIASES\<close> are association lists in the
  order the source writes them, the order in which the loops of \<open>match_primary\<close> visit them.
  \<open>first_some\<close> is a \<open>for\<close> loop that returns from its first successful iteration.
\<close>

definition startswith :: "string \<Rightarrow> string \<Rightarrow> bool" where
  "startswith s p = (take (length p) s = p)"

fun contains :: "string \<Rightarrow> string \<Rightarrow> bool" where
  "contains p [] = (p = [])"
| "contains p (c # cs) = (startswith (c # cs) p \<or> contains p cs)"

fun split_loop :: "string \<Rightarrow> string \<Rightarrow> string list" where
  "split_loop w [] = (if w = [] then [] else [w])"
| "split_loop w (c # cs) =
     (if isspace c then (if w = [] then split_loop [] cs else w # split_loop [] cs)
      else split_loop (w @ [c]) cs)"

definition py_split :: "string \<Rightarrow> string list" where
  "py_split s = split_loop [] s"

fun first_some :: "('a \<Rightarrow> 'b option) \<Rightarrow> 'a list \<Rightarrow> 'b option" where
  "first_some f [] = None"
| "first_some f (x # xs) = (case f x of Some y \<Rightarrow> Some y | None \<Rightarrow> first_some f xs)"

definition PRIMARY_PEOPLE :: "(string \<times> string list \<times> string) list" where
  "PRIMARY_PEOPLE =
     [(''Tina Peters'', [''iPhone 11'', ''iPhone SE Black'', ''iPhone 7''], ''defendant''),
      (''Gerald Wood'', [''iPhone''], ''associate''),
      (''Wendi Woods'', [''iPhone'', ''HP Desktop'', ''MSI Laptop''], ''associate''),
      (''Sherronna Bishop'', [''HP Laptop''], ''associate''),
      (''Sandra Brown'', [''Samsung'', ''Motorola''], ''associate''),
      (''Belinda Knisley'', [''Phone''], ''colleague''),
      (''Joy Quinn'', [''iPhone XR''], ''family''),
      (''Zachary Quinn'', [''Phone''], ''family''),
      (''Conan Hayes'', [''T-Mobile records'', ''Bank records''], ''associate'')]"

definition NAME_ALIASES :: "(string \<times> string list) list" where
  "NAME_ALIASES =
     [(''tina peters'', [''tina'', ''mom'', ''tina p'']),
      (''wendi woods'', [''wendi'', ''wendi wood'', ''wendy woods'', ''wendy wood'']),
      (''joy quinn'', [''joy'']),
      (''zachary quinn'', [''zachary'', ''zach'', ''zach quinn'']),
      (''belinda knisley'', [''belinda'']),
      (''sherronna bishop'', [''sherronna'']),
      (''sandra brown'', [''sandra'', ''sandye brown'', ''sandye'']),
      (''gerald wood'', [''gerald'', ''jerry wood'']),
      (''conan hayes'', [''conan''])]"

definition primary_names :: "string list" where
  "primary_names = map fst PRIMARY_PEOPLE"

definition direct_match :: "string \<Rightarrow> string option" where
  "direct_match norm = find (\<lambda>primary. normalize_name primary = norm) primary_names"

definition alias_match :: "string \<Rightarrow> string option" where
  "alias_match norm =
     first_some (\<lambda>(primary, aliases).
       first_some (\<lambda>alias.
         if norm = alias \<or> norm = normalize_name alias
         then find (\<lambda>p. normalize_name p = primary) primary_names
         else None) aliases) NAME_ALIASES"

definition partial_match :: "string \<Rightarrow> string option" where
  "partial_match norm =
     first_some (\<lambda>primary.
       let parts = py_split (normalize_name primary)
       in if length parts \<ge> 2
          then (if norm = last parts \<and> length (last parts) > 3 then None
                else if list_all (\<lambda>p. contains p norm) parts then Some primary
                else None)
          else None) primary_names"

definition match_primary :: "string \<Rightarrow> string option" where
  "match_primary name =
     (let norm = normalize_name name
      in if norm = [] \<or> length norm < 3 then None
         else (case direct_match norm of
                 Some primary \<Rightarrow> Some primary
               | None \<Rightarrow>
                   (case alias_match norm of
                      Some p \<Rightarrow> Some p
                    | None \<Rightarrow> partial_match norm)))"


text \<open>The last tokens of the multi-token normalised primary names.\<close>

definition last_names :: "string list" where
  "last_names = map (\<lambda>p. last (py_split (normalize_name p)))
     (filter (\<lambda>p. length (py_split (normalize_name p)) \<ge> 2) primary_names)"

section \<open>Relationship graph builder (network\_builder.py)\<close>

text \<open>
  \<open>build_network\<close> is modelled on the lists its four parsers return (\<open>all_contacts\<close>,
  \<open>all_calls\<close>, \<open>all_chats\<close>; the e-mail list is parsed but never read). The MD5 digest
  behind \<open>make_id\<close> and the legal-corpus index are parameters. Dictionaries are association
  lists in insertion order; a \<open>defaultdict\<close> read is \<open>edge_get\<close>, and every such read in the
  source is followed by a write to the same key. A Python \<open>set\<close> of device owners is a
  duplicate-free list in insertion order (the source iterates it in an order it does not
  fix). The entries of an edge's \<open>types\<close> list are the two kinds of contribution:
  \<open>shared_contact\<close> with its \<open>count\<close> and \<open>appears_on_devices\<close>, and \<open>chat\<close> with its
  \<open>platform\<close>, \<open>message_count\<close> and optional \<open>date_range\<close>. The subscripts \<open>nodes[nid]\<close> that
  \<open>map_entry\<close> stands for always hit: the identifier is that of a primary participant,
  entered in step 1, or has just been tested with \<open>in nodes\<close>.
\<close>

definition make_id :: "(string \<Rightarrow> string) \<Rightarrow> string \<Rightarrow> string" where
  "make_id md5hex name = take 12 (md5hex (normalize_name name))"

record contact =
  contact_name :: string
  contact_source :: string
  contact_owner :: string

record call =
  call_owner :: string

record net_thread =
  platform :: string
  net_participants :: "string list"
  net_message_count :: int
  net_started :: "string option"
  net_owner :: string

datatype contribution =
  Shared_contact int "string list"
| Chat string int "string option"

fun is_shared :: "contribution \<Rightarrow> bool" where
  "is_shared (Shared_contact n ds) = True"
| "is_shared (Chat p n d) = False"

fun is_chat :: "contribution \<Rightarrow> bool" where
  "is_chat (Shared_contact n ds) = False"
| "is_chat (Chat p n d) = True"

fun is_chat_on :: "string \<Rightarrow> contribution \<Rightarrow> bool" where
  "is_chat_on pf (Shared_contact n ds) = False"
| "is_chat_on pf (Chat p n d) = (p = pf)"

fun contribution_count :: "contribution \<Rightarrow> int" where
  "contribution_count (Shared_contact n ds) = n"
| "contribution_count (Chat p n d) = n"

fun bump_shared :: "string option \<Rightarrow> contribution \<Rightarrow> contribution" where
  "bump_shared owner (Shared_contact n ds) =
     Shared_contact (n + 1)
       (case owner of None \<Rightarrow> ds | Some d \<Rightarrow> if d \<in> set ds then ds else ds @ [d])"
| "bump_shared owner (Chat p n d) = Chat p n d"

fun bump_chat :: "int \<Rightarrow> contribution \<Rightarrow> contribution" where
  "bump_chat k (Shared_contact n ds) = Shared_contact n ds"
| "bump_chat k (Chat p n d) = Chat p (n + k) d"

fun update_first :: "('a \<Rightarrow> bool) \<Rightarrow> ('a \<Rightarrow> 'a) \<Rightarrow> 'a list \<Rightarrow> 'a list" where
  "update_first P f [] = []"
| "update_first P f (x # xs) = (if P x then f x # xs else x # update_first P f xs)"

record edge_data =
  types :: "contribution list"
  weight :: int

record edge = edge_data +
  edge_source :: string
  edge_target :: string

record case_file =
  cf_filename :: string
  cf_case :: string
  cf_mentions :: int

record node =
  node_id :: string
  node_name :: string
  node_type :: string
  role :: string
  devices :: "string list"
  contact_count :: int
  call_count :: int
  node_message_count :: int
  email_count :: int
  appears_on :: "string list"
  case_files :: "case_file list"
  case_file_count :: int
  total_mentions :: int

record name_info =
  info_devices :: "string list"
  info_sources :: "string list"
  display_name :: string

record builder =
  nodes :: "(string \<times> node) list"
  edges :: "((string \<times> string) \<times> edge_data) list"
  contact_by_name :: "(string \<times> name_info) list"

record network_data =
  nd_nodes :: "node list"
  nd_edges :: "edge list"

definition edge_key :: "string \<Rightarrow> string \<Rightarrow> string \<times> string" where
  "edge_key a b = (if a \<le> b then (a, b) else (b, a))"

definition edge_get :: "((string \<times> string) \<times> edge_data) list \<Rightarrow> string \<times> string \<Rightarrow> edge_data" where
  "edge_get es k = (case map_of es k of None \<Rightarrow> \<lparr>types = [], weight = 0\<rparr> | Some e \<Rightarrow> e)"

definition new_node ::
  "string \<Rightarrow> string \<Rightarrow> string \<Rightarrow> string \<Rightarrow> string list \<Rightarrow> int \<Rightarrow> int \<Rightarrow> string list \<Rightarrow> node" where
  "new_node nid name ty rl devs contacts msgs seen =
     \<lparr>node_id = nid, node_name = name, node_type = ty, role = rl, devices = devs,
      contact_count = contacts, call_count = 0, node_message_count = msgs, email_count = 0,
      appears_on = seen, case_files = [], case_file_count = 0, total_mentions = 0\<rparr>"

definition add_primary_nodes :: "(string \<Rightarrow> string) \<Rightarrow> (string \<times> node) list" where
  "add_primary_nodes md5hex =
     foldl (\<lambda>ns (name, devs, rl).
              AList.update (make_id md5hex name)
                (new_node (make_id md5hex name) name ''primary'' rl devs 0 0 []) ns)
       [] PRIMARY_PEOPLE"

definition contact_step :: "(string \<Rightarrow> string) \<Rightarrow> builder \<Rightarrow> contact \<Rightarrow> builder" where
  "contact_step md5hex st c =
     (let name = contact_name c; norm = normalize_name name
      in if norm = [] \<or> length norm < 2 then st
         else
           (case match_primary name of
              Some primary \<Rightarrow>
                let nid = make_id md5hex primary;
                    ns = AList.map_entry nid
                           (\<lambda>n. n\<lparr>appears_on := appears_on n @ [contact_owner c],
                                  contact_count := contact_count n + 1\<rparr>) (nodes st)
                in (case match_primary (contact_owner c) of
                      None \<Rightarrow> st\<lparr>nodes := ns\<rparr>
                    | Some owner_primary \<Rightarrow>
                        if owner_primary = primary then st\<lparr>nodes := ns\<rparr>
                        else
                          let k = edge_key (make_id md5hex owner_primary) nid;
                              e = edge_get (edges st) k;
                              e1 = e\<lparr>weight := weight e + 1\<rparr>;
                              e2 = (if list_ex is_shared (types e1)
                                    then e1\<lparr>types := update_first is_shared
                                           (bump_shared (Some (contact_owner c))) (types e1)\<rparr>
                                    else e1\<lparr>types := types e1 @
                                           [Shared_contact 1 [contact_owner c]]\<rparr>)
                          in st\<lparr>nodes := ns, edges := AList.update k e2 (edges st)\<rparr>)
            | None \<Rightarrow>
                let info = (case map_of (contact_by_name st) norm of
                              None \<Rightarrow> \<lparr>info_devices = [], info_sources = [], display_name = []\<rparr>
                            | Some i \<Rightarrow> i)
                in st\<lparr>contact_by_name :=
                       AList.update norm
                         \<lparr>info_devices = set_add (contact_owner c) (info_devices info),
                          info_sources = set_add (contact_source c) (info_sources info),
                          display_name = name\<rparr> (contact_by_name st)\<rparr>))"

definition promote_step ::
  "(string \<Rightarrow> string) \<Rightarrow> builder \<Rightarrow> string \<times> name_info \<Rightarrow> builder" where
  "promote_step md5hex st item =
     (let info = snd item
      in if length (info_devices info) \<ge> 2
         then
           let name = display_name info;
               nid = make_id md5hex name;
               ns = (if map_of (nodes st) nid = None
                     then AList.update nid
                            (new_node nid name ''secondary'' ''contact'' []
                               (int (length (info_devices info))) 0 (info_devices info))
                            (nodes st)
                     else nodes st);
               es = foldl (\<lambda>es device_owner.
                       case match_primary device_owner of
                         None \<Rightarrow> es
                       | Some owner_primary \<Rightarrow>
                           let k = edge_key (make_id md5hex owner_primary) nid;
                               e = edge_get es k;
                               e1 = e\<lparr>weight := weight e + 1\<rparr>
                           in AList.update k
                                (if list_ex is_shared (types e1) then e1
                                 else e1\<lparr>types := types e1 @
                                        [Shared_contact 1 (info_devices info)]\<rparr>) es)
                     (edges st) (info_devices info)
           in st\<lparr>nodes := ns, edges := es\<rparr>
         else st)"

definition call_step :: "(string \<Rightarrow> string) \<Rightarrow> builder \<Rightarrow> call \<Rightarrow> builder" where
  "call_step md5hex st cl =
     (case match_primary (call_owner cl) of
        None \<Rightarrow> st
      | Some owner_primary \<Rightarrow>
          st\<lparr>nodes := AList.map_entry (make_id md5hex owner_primary)
                          (\<lambda>n. n\<lparr>call_count := call_count n + 1\<rparr>) (nodes st)\<rparr>)"

definition participant_step ::
  "(string \<Rightarrow> string) \<Rightarrow> net_thread \<Rightarrow> string \<Rightarrow> builder \<Rightarrow> string \<Rightarrow> builder" where
  "participant_step md5hex thread owner_primary st participant =
     (let owner_id = make_id md5hex owner_primary; mc = net_message_count thread
      in if participant = [] \<or> participant = ''****'' then st
         else
           (case (case match_primary participant of
                    None \<Rightarrow> None
                  | Some primary \<Rightarrow> if primary \<noteq> owner_primary then Some primary else None) of
              Some primary \<Rightarrow>
                let target_id = make_id md5hex primary;
                    ns = AList.map_entry target_id
                           (\<lambda>n. n\<lparr>node_message_count := node_message_count n + mc\<rparr>) (nodes st);
                    k = edge_key owner_id target_id;
                    e = edge_get (edges st) k;
                    e1 = e\<lparr>weight := weight e + mc\<rparr>;
                    e2 = (if list_ex (is_chat_on (platform thread)) (types e1)
                          then e1\<lparr>types := update_first (is_chat_on (platform thread))
                                 (bump_chat mc) (types e1)\<rparr>
                          else e1\<lparr>types := types e1 @
                                 [Chat (platform thread) mc (net_started thread)]\<rparr>)
                in st\<lparr>nodes := ns, edges := AList.update k e2 (edges st)\<rparr>
            | None \<Rightarrow>
                let target_id = make_id md5hex participant;
                    k = edge_key owner_id target_id;
                    e = edge_get (edges st) k;
                    e1 = e\<lparr>weight := weight e + mc\<rparr>
                in if map_of (nodes st) target_id \<noteq> None
                   then
                     st\<lparr>nodes := AList.map_entry target_id
                            (\<lambda>n. n\<lparr>node_message_count := node_message_count n + mc\<rparr>)
                            (nodes st),
                        edges := AList.update k
                          (if list_ex is_chat (types e1)
                           then e1\<lparr>types := update_first is_chat (bump_chat mc) (types e1)\<rparr>
                           else e1\<lparr>types := types e1 @ [Chat (platform thread) mc None]\<rparr>)
                          (edges st)\<rparr>
                   else if mc \<ge> 5
                   then
                     st\<lparr>nodes := AList.update target_id
                            (new_node target_id participant ''secondary'' ''chat_contact'' [] 0 mc
                               [net_owner thread]) (nodes st),
                        edges := AList.update k
                          (e1\<lparr>types := types e1 @ [Chat (platform thread) mc None]\<rparr>)
                          (edges st)\<rparr>
                   else st))"

definition chat_step :: "(string \<Rightarrow> string) \<Rightarrow> builder \<Rightarrow> net_thread \<Rightarrow> builder" where
  "chat_step md5hex st thread =
     (case match_primary (net_owner thread) of
        None \<Rightarrow> st
      | Some owner_primary \<Rightarrow>
          foldl (participant_step md5hex thread owner_primary) st (net_participants thread))"

fun index_pairs :: "'a list \<Rightarrow> ('a \<times> 'a) list" where
  "index_pairs [] = []"
| "index_pairs (x # xs) = map (Pair x) xs @ index_pairs xs"

definition cross_step ::
  "(string \<Rightarrow> string) \<Rightarrow> builder \<Rightarrow> string \<times> name_info \<Rightarrow> builder" where
  "cross_step md5hex st item =
     (let device_owners = info_devices (snd item)
      in if length device_owners \<ge> 2
         then
           st\<lparr>edges :=
             foldl (\<lambda>es (a, b).
                case (match_primary a, match_primary b) of
                  (Some owner_a, Some owner_b) \<Rightarrow>
                    if owner_a \<noteq> owner_b
                    then
                      let k = edge_key (make_id md5hex owner_a) (make_id md5hex owner_b);
                          e = edge_get es k
                      in AList.update k
                           (if list_ex is_shared (types e)
                            then e\<lparr>types := update_first is_shared (bump_shared None) (types e)\<rparr>
                            else e\<lparr>types := types e @ [Shared_contact 1 device_owners],
                                   weight := weight e + 1\<rparr>) es
                    else es
                | _ \<Rightarrow> es)
              (edges st) (index_pairs device_owners)\<rparr>
         else st)"

definition finish_node :: "(string \<times> case_file list) list \<Rightarrow> node \<Rightarrow> node" where
  "finish_node person_files n =
     (let cfs = (case map_of person_files (node_name n) of None \<Rightarrow> [] | Some fs \<Rightarrow> fs)
      in n\<lparr>case_files := take 50 cfs,
            case_file_count := int (length cfs),
            total_mentions := sum_list (map cf_mentions cfs),
            appears_on := remdups (appears_on n)\<rparr>)"

definition edge_list :: "((string \<times> string) \<times> edge_data) list \<Rightarrow> edge list" where
  "edge_list es =
     sort_key (\<lambda>e. - weight e)
       (map (\<lambda>((src, tgt), d). \<lparr>types = types d, weight = weight d, edge_source = src, edge_target = tgt\<rparr>)
          (filter (\<lambda>(k, d). weight d > 0) es))"

definition build_network ::
  "(string \<Rightarrow> string) \<Rightarrow> (string \<times> case_file list) list \<Rightarrow>
   contact list \<Rightarrow> call list \<Rightarrow> net_thread list \<Rightarrow> network_data" where
  "build_network md5hex person_files all_contacts all_calls all_chats =
     (let st1 = \<lparr>nodes = add_primary_nodes md5hex, edges = [], contact_by_name = []\<rparr>;
          st2 = foldl (contact_step md5hex) st1 all_contacts;
          st3 = foldl (promote_step md5hex) st2 (contact_by_name st2);
          st4 = foldl (call_step md5hex) st3 all_calls;
          st5 = foldl (chat_step md5hex) st4 all_chats;
          st6 = foldl (cross_step md5hex) st5 (contact_by_name st5)
      in \<lparr>nd_nodes = map (\<lambda>(nid, n). finish_node person_files n) (nodes st6),
          nd_edges = edge_list (edges st6)\<rparr>)"

text \<open>
  An example corpus: two contact lists (Belinda Knisley's and Joy Quinn's phones) that both
  hold ``John Smith'' and ``Jane Doe'', with the MD5 digests of the normalised names that
  occur (the nine primary participants and the two contacts).
\<close>

definition md5hex_sample :: "string \<Rightarrow> string" where
  "md5hex_sample s =
     (case map_of
        [(''tina peters'', ''738b9f042eba045d398cfc8cfbbb68ed''),
         (''gerald wood'', ''43c0c56e40c043dbe8d7a7937e8cbf66''),
         (''wendi woods'', ''9870a948f7799f5b74e21c16c0f5f2a3''),
         (''sherronna bishop'', ''a7acf787edd7cf8d0f88636becf0a3ae''),
         (''sandra brown'', ''1b6dc2a5b4690aa7f30a56979101c427''),
         (''belinda knisley'', ''1be1829ea910ee3edefbf33e11a80fb2''),
         (''joy quinn'', ''23d6d3a9c769f349b4249258304b993f''),
         (''zachary quinn'', ''e300379d8fe36aac5702787dd3cb697c''),
         (''conan hayes'', ''20c26ba3c119a41e354f7cc847c062a1''),
         (''john smith'', ''2adc83bfb66efdc08b3d049a160c316a''),
         (''jane doe'', ''991bab3fde1bc648bc07cc9d1fa66cc0'')] s of
        None \<Rightarrow> [] | Some h \<Rightarrow> h)"

definition sample_contacts :: "contact list" where
  "sample_contacts =
     [\<lparr>contact_name = ''John Smith'', contact_source = ''Phone'', contact_owner = ''Belinda Knisley''\<rparr>,
      \<lparr>contact_name = ''Jane Doe'', contact_source = ''Phone'', contact_owner = ''Belinda Knisley''\<rparr>,
      \<lparr>contact_name = ''John Smith'', contact_source = ''Phone'', contact_owner = ''Joy Quinn''\<rparr>,
      \<lparr>contact_name = ''Jane Doe'', contact_source = ''Phone'', contact_owner = ''Joy Quinn''\<rparr>]"


section \<open>Node-detail query (network\_builder.py)\<close>

record connection =
  conn_person :: node
  conn_edge :: edge

record person_details =
  pd_person :: node
  pd_connections :: "connection list"
  pd_total_connections :: nat

definition find_node :: "string \<Rightarrow> node list \<Rightarrow> node option" where
  "find_node nid ns = find (\<lambda>n. node_id n = nid) ns"

definition get_person_details :: "string \<Rightarrow> network_data \<Rightarrow> person_details option" where
  "get_person_details person_id network_data =
     (case find_node person_id (nd_nodes network_data) of
        None \<Rightarrow> None
      | Some node \<Rightarrow>
          let conns = List.map_filter
                (\<lambda>e. if edge_source e = person_id \<or> edge_target e = person_id
                     then (case find_node
                                  (if edge_source e = person_id then edge_target e
                                   else edge_source e) (nd_nodes network_data) of
                             None \<Rightarrow> None
                           | Some other_node \<Rightarrow> Some \<lparr>conn_person = other_node, conn_edge = e\<rparr>)
                     else None) (nd_edges network_data);
              sorted_conns = sort_key (\<lambda>c. - weight (conn_edge c)) conns
          in Some \<lparr>pd_person = node, pd_connections = sorted_conns,
                   pd_total_connections = length sorted_conns\<rparr>)"

section \<open>Record store queries (data\_loader.py, db.py)\<close>

text \<open>
  A parsed record is a dictionary of strings. An optional argument is \<open>None\<close> or a string and
  is tested for truthiness as the source does. What a query returns is a page of parsed
  records, of bulk-JSON records (an abstract type) or of per-category counts. The renderings
  a substring query runs over (\<open>str(r)\<close>, \<open>json.dumps\<close>), the tagging of a JSON record with
  its extraction and the SQL operator \<open>ILIKE\<close> are parameters.
\<close>

type_synonym parsed_record = "(string \<times> string) list"

datatype 'j device_record =
  Parsed parsed_record
| Extracted 'j
| Category_count string int

record 'r page_result =
  pr_records :: "'r list"
  pr_total :: int
  pr_page :: int
  pr_per_page :: int

definition truthy :: "string option \<Rightarrow> bool" where
  "truthy v = (case v of None \<Rightarrow> False | Some s \<Rightarrow> s \<noteq> [])"

definition record_timestamp :: "parsed_record \<Rightarrow> string" where
  "record_timestamp r = (case map_of r ''timestamp'' of None \<Rightarrow> [] | Some t \<Rightarrow> t)"

definition paginate :: "'r list \<Rightarrow> int \<Rightarrow> int \<Rightarrow> 'r page_result" where
  "paginate recs page per_page =
     (let start = (page - 1) * per_page
      in \<lparr>pr_records = py_slice recs start (start + per_page), pr_total = int (length recs),
          pr_page = page, pr_per_page = per_page\<rparr>)"

record 'j data_store =
  cellebrite_data :: "(string \<times> (string \<times> parsed_record list) list) list"
  axiom_index :: "(string \<times> (string \<times> int) list) list"
  axiom_files :: "string \<Rightarrow> string \<Rightarrow> 'j list"

record 'j renderers =
  py_str :: "parsed_record \<Rightarrow> string"
  json_dumps :: "'j \<Rightarrow> string"
  tag_extraction :: "string \<Rightarrow> 'j \<Rightarrow> 'j"
  ilike :: "string \<Rightarrow> string \<Rightarrow> bool"

definition filter_if :: "bool \<Rightarrow> ('a \<Rightarrow> bool) \<Rightarrow> 'a list \<Rightarrow> 'a list" where
  "filter_if c P xs = (if c then filter P xs else xs)"

definition store_get_device_data ::
  "'j renderers \<Rightarrow> 'j data_store \<Rightarrow> string \<Rightarrow> string option \<Rightarrow> int \<Rightarrow> int \<Rightarrow>
   string option \<Rightarrow> string option \<Rightarrow> string option \<Rightarrow> 'j device_record page_result" where
  "store_get_device_data rd st device_id category page per_page query date_from date_to =
     (case map_of (cellebrite_data st) device_id of
        Some data \<Rightarrow>
          let recs0 = (if truthy category
                       then (case map_of data (the category) of None \<Rightarrow> [] | Some rs \<Rightarrow> rs)
                       else concat (map (\<lambda>(cat, rs).
                              map (\<lambda>r. AList.update ''_category'' cat r) rs) data));
              recs1 = filter_if (truthy date_from)
                        (\<lambda>r. record_timestamp r \<ge> the date_from) recs0;
              recs2 = filter_if (truthy date_to)
                        (\<lambda>r. record_timestamp r \<le> the date_to @ ''T23:59:59'') recs1;
              recs3 = filter_if (truthy query)
                        (\<lambda>r. contains (lower (the query)) (lower (py_str rd r))) recs2
          in paginate (map Parsed recs3) page per_page
      | None \<Rightarrow>
          (case map_of (axiom_index st) device_id of
             Some file_index \<Rightarrow>
               if truthy category
               then
                 paginate (map Extracted
                   (filter_if (truthy query)
                      (\<lambda>r. contains (lower (the query)) (lower (json_dumps rd r)))
                      (axiom_files st device_id (the category)))) page per_page
               else
                 paginate (map (\<lambda>(k, v). Category_count k v)
                   (filter (\<lambda>(k, v). v > 0) (sort_key fst file_index))) page per_page
           | None \<Rightarrow>
               \<lparr>pr_records = [], pr_total = 0, pr_page = page, pr_per_page = per_page\<rparr>))"

text \<open>
  The relational store: the \<open>devices\<close> table (device identifier to source family), the
  \<open>records\<close> table, the per-category counts, the map from a composite device to its
  extractions, and the JSON files of the bulk family (\<open>None\<close> for a missing file). The WHERE
  clause is the chain of conditions the source appends; \<open>ORDER BY timestamp DESC\<close> orders by
  code points; a negative \<open>LIMIT\<close> or \<open>OFFSET\<close> is an error of the database.
\<close>

record db_row =
  row_device_id :: string
  row_category :: string
  row_timestamp :: string
  row_data :: parsed_record
  row_searchable :: string

record 'j evidence_db =
  devices_table :: "(string \<times> string) list"
  records_table :: "db_row list"
  device_category_counts :: "((string \<times> string) \<times> int) list"
  merged_device_map :: "(string \<times> string list) list"
  axiom_json :: "string \<Rightarrow> string \<Rightarrow> 'j list option"

datatype db_error = IndexError | DatabaseError

definition resolve_device_ids :: "'j evidence_db \<Rightarrow> string \<Rightarrow> string list" where
  "resolve_device_ids db device_id =
     (case map_of (merged_device_map db) device_id of
        Some ids \<Rightarrow> ids
      | None \<Rightarrow> [device_id])"

definition order_by_timestamp_desc :: "db_row list \<Rightarrow> db_row list" where
  "order_by_timestamp_desc rows = rev (sort_key row_timestamp rows)"

definition category_summary :: "'j evidence_db \<Rightarrow> string \<Rightarrow> (string \<times> int) list" where
  "category_summary db device_id =
     map (\<lambda>((d, c), n). (c, n))
       (filter (\<lambda>((d, c), n). d = device_id \<and> n > 0) (device_category_counts db))"

definition get_axiom_data ::
  "'j renderers \<Rightarrow> 'j evidence_db \<Rightarrow> string \<Rightarrow> string option \<Rightarrow> int \<Rightarrow> int \<Rightarrow>
   string option \<Rightarrow> 'j device_record page_result" where
  "get_axiom_data rd db device_id category page per_page query =
     (if \<not> truthy category
      then
        let recs = map (\<lambda>(c, n). Category_count c n)
                     (sort_key fst (category_summary db device_id))
        in \<lparr>pr_records = recs, pr_total = int (length recs), pr_page = 1,
            pr_per_page = int (length recs)\<rparr>
      else
        (case axiom_json db device_id (the category) of
           None \<Rightarrow> \<lparr>pr_records = [], pr_total = 0, pr_page = page, pr_per_page = per_page\<rparr>
         | Some data \<Rightarrow>
             paginate (map Extracted
               (filter_if (truthy query)
                  (\<lambda>r. contains (lower (the query)) (lower (json_dumps rd r))) data))
               page per_page))"

definition add_totals :: "(string \<times> int) list \<Rightarrow> string \<times> int \<Rightarrow> (string \<times> int) list" where
  "add_totals totals cn =
     AList.update (fst cn)
       ((case map_of totals (fst cn) of None \<Rightarrow> 0 | Some n \<Rightarrow> n) + snd cn) totals"

definition get_axiom_data_merged ::
  "'j renderers \<Rightarrow> 'j evidence_db \<Rightarrow> string list \<Rightarrow> string option \<Rightarrow> int \<Rightarrow> int \<Rightarrow>
   string option \<Rightarrow> 'j device_record page_result" where
  "get_axiom_data_merged rd db sub_ids category page per_page query =
     (if \<not> truthy category
      then
        let cat_totals = foldl add_totals []
                           (concat (map (category_summary db) sub_ids));
            recs = map (\<lambda>(c, n). Category_count c n) (sort_key fst cat_totals)
        in \<lparr>pr_records = recs, pr_total = int (length recs), pr_page = 1,
            pr_per_page = int (length recs)\<rparr>
      else
        let all_data = concat (map (\<lambda>sid.
                         case axiom_json db sid (the category) of
                           None \<Rightarrow> []
                         | Some data \<Rightarrow> map (tag_extraction rd sid) data) sub_ids)
        in paginate (map Extracted
             (filter_if (truthy query)
                (\<lambda>r. contains (lower (the query)) (lower (json_dumps rd r))) all_data))
             page per_page)"

definition select_rows ::
  "'j renderers \<Rightarrow> 'j evidence_db \<Rightarrow> string list \<Rightarrow> string option \<Rightarrow> string option \<Rightarrow>
   string option \<Rightarrow> string option \<Rightarrow> db_row list" where
  "select_rows rd db sub_ids category query date_from date_to =
     filter_if (truthy query)
       (\<lambda>r. ilike rd (row_searchable r) (''%'' @ the query @ ''%''))
       (filter_if (truthy date_to) (\<lambda>r. row_timestamp r \<le> the date_to @ ''T23:59:59'')
          (filter_if (truthy date_from) (\<lambda>r. row_timestamp r \<ge> the date_from)
             (filter_if (truthy category) (\<lambda>r. row_category r = the category)
                (filter (\<lambda>r. row_device_id r \<in> set sub_ids) (records_table db)))))"

definition db_get_device_data ::
  "'j renderers \<Rightarrow> 'j evidence_db \<Rightarrow> string \<Rightarrow> string option \<Rightarrow> int \<Rightarrow> int \<Rightarrow>
   string option \<Rightarrow> string option \<Rightarrow> string option \<Rightarrow>
   db_error + 'j device_record page_result" where
  "db_get_device_data rd db device_id category page per_page query date_from date_to =
     (case resolve_device_ids db device_id of
        [] \<Rightarrow> Inl IndexError
      | first_id # more_ids \<Rightarrow>
          (case map_of (devices_table db) first_id of
             None \<Rightarrow>
               Inr \<lparr>pr_records = [], pr_total = 0, pr_page = page, pr_per_page = per_page\<rparr>
           | Some src \<Rightarrow>
               if src = ''axiom''
               then
                 (if more_ids \<noteq> []
                  then Inr (get_axiom_data_merged rd db (first_id # more_ids) category page
                              per_page query)
                  else Inr (get_axiom_data rd db first_id category page per_page query))
               else
                 let rows = select_rows rd db (first_id # more_ids) category query date_from
                              date_to;
                     offset = (page - 1) * per_page
                 in if per_page < 0 \<or> offset < 0 then Inl DatabaseError
                    else
                      Inr \<lparr>pr_records =
                             map (\<lambda>r. Parsed (AList.update ''_category'' (row_category r)
                                                (row_data r)))
                               (take (nat per_page)
                                  (drop (nat offset) (order_by_timestamp_desc rows))),
                           pr_total = int (length rows), pr_page = page,
                           pr_per_page = per_page\<rparr>))"


definition sample_renderers :: "unit renderers" where
  "sample_renderers =
     \<lparr>py_str = (\<lambda>r. concat (map snd r)), json_dumps = (\<lambda>j. []), tag_extraction = (\<lambda>s j. j),
      ilike = (\<lambda>text pat. contains (lower (butlast (tl pat))) (lower text))\<rparr>"

definition sample_chats :: "parsed_record list" where
  "sample_chats =
     [[(''timestamp'', ''2021-08-06T21:07:24+00:00''), (''sender'', ''Wendi''),
       (''body'', ''Added to MCUA group''), (''source'', ''Signal'')],
      [(''timestamp'', ''2021-08-07T09:15:00+00:00''), (''sender'', ''Tina''),
       (''body'', ''See you there''), (''source'', ''Signal'')]]"

definition sample_store :: "unit data_store" where
  "sample_store =
     \<lparr>cellebrite_data = [(''wendi-woods'', [(''chats'', sample_chats)])],
      axiom_index = [], axiom_files = (\<lambda>d c. [])\<rparr>"

definition sample_db :: "unit evidence_db" where
  "sample_db =
     \<lparr>devices_table = [(''wendi-woods'', ''cellebrite'')],
      records_table =
        map (\<lambda>r. \<lparr>row_device_id = ''wendi-woods'', row_category = ''chats'',
                    row_timestamp = record_timestamp r, row_data = r,
                    row_searchable = concat (map snd r)\<rparr>) sample_chats,
      device_category_counts = [((''wendi-woods'', ''chats''), 2)],
      merged_device_map = [],
      axiom_json = (\<lambda>d c. None)\<rparr>"

definition sample_network :: network_data where
  "sample_network =
     \<lparr>nd_nodes = [new_node ''1be1829ea910'' ''Belinda Knisley'' ''primary'' ''colleague''
                      [''Phone''] 0 0 []],
      nd_edges = []\<rparr>"

section \<open>Facts about the string primitives\<close>

lemma isspace_blank: "isspace (CHR '' '')"
  by (simp add: isspace_def)



lemma lstrip_fixed: "s = [] \<or> \<not> isspace (hd s) \<Longrightarrow> lstrip s = s"
  by (cases s) (auto simp: lstrip_def)

lemma rstrip_fixed: "s = [] \<or> \<not> isspace (last s) \<Longrightarrow> rstrip s = s"
proof (cases "s = []")
  case True
  then show ?thesis by (simp add: rstrip_def)
next
  case False
  assume "s = [] \<or> \<not> isspace (last s)"
  with False have "\<not> isspace (hd (rev s))" by (simp add: hd_rev)
  moreover from False have "rev s \<noteq> []" by simp
  ultimately have "dropWhile isspace (rev s) = rev s" by (cases "rev s") auto
  then show ?thesis by (simp add: rstrip_def)
qed

lemma lstrip_hd: "lstrip s \<noteq> [] \<Longrightarrow> \<not> isspace (hd (lstrip s))"
  unfolding lstrip_def by (metis hd_dropWhile)

lemma rstrip_last: "rstrip s \<noteq> [] \<Longrightarrow> \<not> isspace (last (rstrip s))"
  unfolding rstrip_def by (metis hd_dropWhile last_rev rev_is_Nil_conv)

lemma rstrip_prefix: "\<exists>t. s = rstrip s @ t \<and> (\<forall>c \<in> set t. isspace c)"
proof -
  have "rev s = takeWhile isspace (rev s) @ dropWhile isspace (rev s)" by simp
  then have "s = rev (dropWhile isspace (rev s)) @ rev (takeWhile isspace (rev s))"
    by (metis rev_append rev_rev_ident)
  moreover have "\<forall>c \<in> set (rev (takeWhile isspace (rev s))). isspace c"
    by (auto dest: set_takeWhileD)
  ultimately show ?thesis unfolding rstrip_def by blast
qed

lemma rstrip_hd: "rstrip s \<noteq> [] \<Longrightarrow> hd (rstrip s) = hd s"
  using rstrip_prefix [of s] by (metis hd_append2)

lemma strip_ends:
  "strip s = [] \<or> (\<not> isspace (hd (strip s)) \<and> \<not> isspace (last (strip s)))"
proof (cases "strip s = []")
  case True
  then show ?thesis by simp
next
  case False
  then have ne: "rstrip (lstrip s) \<noteq> []" by (simp add: strip_def)
  then have "lstrip s \<noteq> []" by (auto simp: rstrip_def)
  then have "\<not> isspace (hd (lstrip s))" by (rule lstrip_hd)
  with ne have "\<not> isspace (hd (strip s))" by (simp add: strip_def rstrip_hd)
  moreover from ne have "\<not> isspace (last (strip s))" by (simp add: strip_def rstrip_last)
  ultimately show ?thesis by simp
qed

lemma strip_fixed:
  "s = [] \<or> (\<not> isspace (hd s) \<and> \<not> isspace (last s)) \<Longrightarrow> strip s = s"
  by (auto simp: strip_def lstrip_fixed rstrip_fixed)

lemma strip_idem: "strip (strip s) = strip s"
  by (rule strip_fixed) (rule strip_ends)

lemma set_lstrip: "set (lstrip s) \<subseteq> set s"
  by (auto simp: lstrip_def dest: set_dropWhileD)

lemma set_rstrip: "set (rstrip s) \<subseteq> set s"
  by (auto simp: rstrip_def dest: set_dropWhileD)

lemma set_strip: "set (strip s) \<subseteq> set s"
  using set_lstrip set_rstrip unfolding strip_def by blast

section \<open>Facts about name normalisation\<close>












section \<open>Facts about the chat parser\<close>

lemma consume_append: "consume p (p @ s) = Some s"
  by (induction p) auto

lemma consume_SomeD: "consume p s = Some r \<Longrightarrow> s = p @ r"
  by (induction p s rule: consume.induct) (auto split: if_splits)

lemma iso_date_T_length: "iso_date_T d \<Longrightarrow> length d = 11"
  by (induction d rule: iso_date_T.induct) auto

lemma rstrip_Nil_iff: "rstrip s = [] \<longleftrightarrow> (\<forall>c \<in> set s. isspace c)"
  by (auto simp: rstrip_def dropWhile_eq_Nil_conv)

lemma rstrip_snoc_space: "isspace c \<Longrightarrow> rstrip (s @ [c]) = rstrip s"
  by (simp add: rstrip_def)

lemma rfind_append: "c \<notin> set suf \<Longrightarrow> rfind c (pre @ c # suf) = int (length pre)"
proof -
  assume n: "c \<notin> set suf"
  have "rev (pre @ c # suf) = rev suf @ c # rev pre" by simp
  moreover have "takeWhile (\<lambda>x. x \<noteq> c) (rev suf @ c # rev pre) = rev suf"
    using n by (auto simp: takeWhile_tail)
  ultimately show ?thesis by (simp add: rfind_def)
qed

lemma rfind_split:
  "c \<in> set s \<Longrightarrow> \<exists>pre suf. s = pre @ c # suf \<and> c \<notin> set suf \<and> rfind c s = int (length pre)"
proof -
  assume "c \<in> set s"
  then obtain pre suf where "s = pre @ c # suf" and "c \<notin> set suf"
    by (meson split_list_last)
  then show ?thesis using rfind_append by blast
qed

lemma rfind_neg: "c \<notin> set s \<Longrightarrow> rfind c s = - 1"
  by (simp add: rfind_def)


lemma msg_patD:
  "msg_pat line = Some (ts, sender, g3) \<Longrightarrow>
   \<exists>d t. ts = d @ t \<and> iso_date_T d \<and> t \<noteq> [] \<and> CHR '']'' \<notin> set t \<and>
     CHR ''*'' \<notin> set sender \<and> g3 \<noteq> [] \<and> CHR 0x0A \<notin> set g3"
  unfolding msg_pat_def Let_def
  by (auto split: option.splits if_splits dest: set_takeWhileD)

lemma msg_pat_build:
  assumes "iso_date_T d" "t \<noteq> []" "CHR '']'' \<notin> set t" "CHR ''*'' \<notin> set sender"
    "g \<noteq> []" "CHR 0x0A \<notin> set g"
  shows "msg_pat (''- ['' @ d @ t @ ''] **'' @ sender @ ''**: '' @ g) = Some (d @ t, sender, g)"
proof -
  define r3 where "r3 = sender @ ''**: '' @ g"
  define r2 where "r2 = ''] **'' @ r3"
  define r1 where "r1 = d @ t @ r2"
  have len: "length d = 11" using assms(1) by (rule iso_date_T_length)
  have c1: "consume ''- ['' (''- ['' @ r1) = Some r1"
    by (rule consume_append)
  have td: "take 11 r1 = d" "drop 11 r1 = t @ r2"
    using len by (simp_all add: r1_def)
  have tw1: "takeWhile (\<lambda>c. c \<noteq> CHR '']'') (t @ r2) = t"
    using assms(3) by (auto simp: r2_def takeWhile_tail)
  have dw1: "dropWhile (\<lambda>c. c \<noteq> CHR '']'') (t @ r2) = r2"
    using assms(3) by (auto simp: r2_def dropWhile_append3)
  have c2: "consume ''] **'' r2 = Some r3"
    unfolding r2_def by (rule consume_append)
  have tw2: "takeWhile (\<lambda>c. c \<noteq> CHR ''*'') r3 = sender"
    using assms(4) by (auto simp: r3_def takeWhile_tail)
  have dw2: "dropWhile (\<lambda>c. c \<noteq> CHR ''*'') r3 = ''**: '' @ g"
    using assms(4) by (auto simp: r3_def dropWhile_append3)
  have c3: "consume ''**: '' (''**: '' @ g) = Some g"
    by (rule consume_append)
  have tw3: "takeWhile (\<lambda>c. c \<noteq> CHR 0x0A) g = g"
    using assms(6) by (auto simp: takeWhile_eq_all_conv)
  have "msg_pat (''- ['' @ r1) = Some (d @ t, sender, g)"
    unfolding msg_pat_def c1 using assms(1,2,5)
    by (simp add: td tw1 dw1 c2 tw2 dw2 c3 tw3 del: consume.simps append.simps)
  then show ?thesis by (simp add: r1_def r2_def r3_def)
qed


lemma py_slice_nat:
  "py_slice xs (int a) (int b) =
     take (min (length xs) b - min (length xs) a) (drop (min (length xs) a) xs)"
  by (simp add: py_slice_def slice_index_def Let_def)

lemma py_slice_nat_last:
  "py_slice xs (int a) (- 1) =
     take (length xs - 1 - min (length xs) a) (drop (min (length xs) a) xs)"
proof -
  have "nat (max 0 (int (length xs) + - 1)) = length xs - 1" by auto
  then show ?thesis by (simp add: py_slice_def slice_index_def Let_def)
qed

lemma strip_nonempty_prefix:
  assumes "pre \<noteq> []" "\<not> isspace (hd pre)"
  shows "strip pre \<noteq> []" "hd (strip pre) = hd pre"
proof -
  have l: "lstrip pre = pre" using assms by (simp add: lstrip_fixed)
  have "hd pre \<in> set pre" using assms(1) by simp
  with assms(2) have "\<not> (\<forall>c \<in> set pre. isspace c)" by blast
  then have r: "rstrip pre \<noteq> []" by (simp add: rstrip_Nil_iff)
  with l show "strip pre \<noteq> []" by (simp add: strip_def)
  from r l show "hd (strip pre) = hd pre" by (simp add: strip_def rstrip_hd)
qed

lemma split_sourceD:
  assumes "split_source g = (body, source)" "source \<noteq> []"
  shows "body \<noteq> [] \<and> strip body = body \<and> CHR ''('' \<notin> set source \<and>
    set body \<subseteq> set g \<and> set source \<subseteq> set g"
proof -
  define b0 where "b0 = strip g"
  define idx where "idx = rfind (CHR ''('') b0"
  from assms have cond: "idx > 0" "endswith_char b0 (CHR '')'')"
    and body: "body = strip (py_slice b0 0 idx)"
    and source: "source = py_slice b0 (idx + 1) (- 1)"
    by (auto simp: split_source_def Let_def b0_def idx_def split: if_splits)
  from cond(1) have "CHR ''('' \<in> set b0"
    using rfind_neg [of "CHR ''(''" b0] by (auto simp: idx_def)
  then obtain pre suf where b0: "b0 = pre @ CHR ''('' # suf" and suf: "CHR ''('' \<notin> set suf"
    and i: "idx = int (length pre)"
    using rfind_split unfolding idx_def by blast
  from cond(1) i have pre: "pre \<noteq> []" by auto
  have b0ne: "b0 \<noteq> []" using b0 by simp
  then have "\<not> isspace (hd b0)" using strip_ends [of g] by (simp add: b0_def)
  with pre b0 have hdpre: "\<not> isspace (hd pre)" by simp
  have sl1: "py_slice b0 0 idx = pre"
    using py_slice_nat [of b0 0 "length pre"] by (simp add: i b0)
  have sl2: "py_slice b0 (idx + 1) (- 1) = butlast suf"
    using py_slice_nat_last [of b0 "Suc (length pre)"]
    by (simp add: i b0 butlast_conv_take add.commute)
  have "body \<noteq> []" using strip_nonempty_prefix(1) [OF pre hdpre] by (simp add: body sl1)
  moreover have "strip body = body" by (simp add: body strip_idem)
  moreover have "CHR ''('' \<notin> set source"
    using suf by (auto simp: source sl2 dest: in_set_butlastD)
  moreover have "set b0 \<subseteq> set g" unfolding b0_def by (rule set_strip)
  then have "set pre \<subseteq> set g" "set suf \<subseteq> set g" by (auto simp: b0)
  then have "set body \<subseteq> set g" "set source \<subseteq> set g"
    unfolding body source sl1 sl2 using set_strip [of pre] by (auto dest: in_set_butlastD)
  ultimately show ?thesis by simp
qed

lemma split_source_build:
  assumes "body \<noteq> []" "strip body = body" "CHR ''('' \<notin> set source"
  shows "split_source (body @ '' ('' @ source @ '')'') = (body, source)"
proof -
  define s where "s = body @ '' ('' @ source @ '')''"
  have hd: "\<not> isspace (hd body)" and lst: "\<not> isspace (last body)"
    using strip_ends [of body] assms(1,2) by auto
  have "\<not> isspace (CHR '')'')" by (simp add: isspace_def)
  then have st: "strip s = s"
    using hd assms(1) by (intro strip_fixed) (simp add: s_def)
  have s2: "s = (body @ '' '') @ CHR ''('' # (source @ '')'')" by (simp add: s_def)
  have "CHR ''('' \<notin> set (source @ '')'')" using assms(3) by simp
  then have idx: "rfind (CHR ''('') s = int (length body) + 1"
    unfolding s2 by (subst rfind_append) simp_all
  have e: "endswith_char s (CHR '')'')" by (simp add: endswith_char_def s_def)
  have pos: "rfind (CHR ''('') s > 0" by (simp add: idx)
  have sl1: "py_slice s 0 (rfind (CHR ''('') s) = body @ '' ''"
    unfolding idx using py_slice_nat [of s 0 "Suc (length body)"] by (simp add: s_def add.commute)
  have "rfind (CHR ''('') s + 1 = int (Suc (Suc (length body)))" by (simp add: idx)
  then have sl2: "py_slice s (rfind (CHR ''('') s + 1) (- 1) = source"
    by (simp only: py_slice_nat_last) (simp add: s_def)
  have "lstrip (body @ '' '') = body @ '' ''"
    using hd assms(1) by (intro lstrip_fixed) simp
  moreover have "rstrip (body @ '' '') = rstrip body"
    by (rule rstrip_snoc_space) (rule isspace_blank)
  moreover have "rstrip body = body" using lst by (simp add: rstrip_fixed)
  ultimately have sb: "strip (body @ '' '') = body" by (simp add: strip_def)
  have "split_source s = (body, source)"
    by (simp add: split_source_def Let_def st pos e sl1 sl2 sb)
  then show ?thesis by (simp add: s_def)
qed

lemma chat_record_example:
  "chat_record ''- [2021-08-06T21:07:24+00:00] **Wendi**: Added to MCUA group (Signal)'' =
     Some \<lparr>msg_timestamp = ''2021-08-06T21:07:24+00:00'', msg_sender = ''Wendi'',
       msg_body = ''Added to MCUA group'', msg_source = ''Signal''\<rparr>"
  by (simp add: chat_record_def msg_pat_def split_source_def strip_def lstrip_def rstrip_def
      isspace_def isdigit_def rfind_def py_slice_def slice_index_def endswith_char_def Let_def)

section \<open>Facts about the chat thread parser\<close>

lemma parse_chats_loop_eq:
  "parse_chats_loop acc lines = acc @ concat (map line_messages lines)"
  by (induction lines arbitrary: acc) (auto simp: line_messages_def split: option.splits)

lemma parse_chats_eq: "parse_chats lines = concat (map line_messages lines)"
  by (simp add: parse_chats_def parse_chats_loop_eq)

lemma header_not_msg: "header_pat line = Some g \<Longrightarrow> msg_pat line = None"
  by (auto simp: header_pat_def msg_pat_def split: option.splits dest!: consume_SomeD)

lemma started_not_msg: "started_pat line = Some g \<Longrightarrow> msg_pat line = None"
  by (auto simp: started_pat_def msg_pat_def split: option.splits dest!: consume_SomeD)

lemma header_line_messages: "header_pat line = Some g \<Longrightarrow> line_messages line = []"
  by (simp add: line_messages_def chat_record_def header_not_msg)

lemma started_line_messages: "started_pat line = Some g \<Longrightarrow> line_messages line = []"
  by (simp add: line_messages_def chat_record_def started_not_msg)

lemma concat_flush:
  "concat (map messages (flush_thread ths cur)) =
     concat (map messages (ths @ (case cur of None \<Rightarrow> [] | Some t \<Rightarrow> [t])))"
  by (simp add: flush_thread_def split: option.splits)

lemma thread_line_messages:
  "concat (map messages (all_threads (thread_line s line))) =
     concat (map messages (all_threads s)) @ line_messages line"
proof (cases "header_pat line")
  case (Some g)
  then show ?thesis
    by (simp add: thread_line_def all_threads_def concat_flush header_line_messages)
next
  case None
  note h = None
  show ?thesis
  proof (cases "current_thread s \<noteq> None \<and> started_pat line \<noteq> None")
    case True
    then obtain t g where "current_thread s = Some t" "started_pat line = Some g" by auto
    with h show ?thesis
      by (simp add: thread_line_def all_threads_def started_line_messages)
  next
    case False
    show ?thesis
    proof (cases "msg_pat line")
      case None
      with h False show ?thesis
        by (auto simp: thread_line_def all_threads_def line_messages_def chat_record_def
            split: option.splits)
    next
      case (Some r)
      obtain ts sender g3 where r: "r = (ts, sender, g3)" by (cases r)
      obtain body source where sp: "split_source g3 = (body, source)" by (cases "split_source g3")
      from h False Some r sp show ?thesis
        by (auto simp: thread_line_def all_threads_def line_messages_def chat_record_def Let_def
            split: option.splits)
    qed
  qed
qed

lemma foldl_thread_line_messages:
  "concat (map messages (all_threads (foldl thread_line s lines))) =
     concat (map messages (all_threads s)) @ concat (map line_messages lines)"
  by (induction lines arbitrary: s) (simp_all add: thread_line_messages)


lemma flush_sub:
  "flush_thread ths cur = ths @ (case cur of None \<Rightarrow> [] | Some t \<Rightarrow> [t]) \<or>
   flush_thread ths cur = ths"
  by (simp add: flush_thread_def split: option.splits)

lemma thread_inv_flush:
  assumes "thread_inv s"
  shows "sorted_wrt (<) (map thread_id (flush_thread (threads s) (current_thread s)))"
    and "list_all (\<lambda>t. thread_id t \<le> thread_counter s)
           (flush_thread (threads s) (current_thread s))"
  using assms flush_sub [of "threads s" "current_thread s"]
  by (auto simp: thread_inv_def all_threads_def sorted_wrt_append split: option.splits)

lemma sorted_wrt_snoc_bound:
  "sorted_wrt (<) (map thread_id ths) \<Longrightarrow> list_all (\<lambda>t. thread_id t \<le> n) ths \<Longrightarrow>
   n < thread_id t \<Longrightarrow> sorted_wrt (<) (map thread_id (ths @ [t]))"
  by (auto simp: sorted_wrt_append list_all_iff)

lemma list_all_bound_mono:
  "list_all (\<lambda>t. thread_id t \<le> n) ths \<Longrightarrow> n \<le> m \<Longrightarrow>
   list_all (\<lambda>t. thread_id t \<le> m) ths"
  by (auto simp: list_all_iff)

lemma thread_inv_step: "thread_inv s \<Longrightarrow> thread_inv (thread_line s line)"
proof (cases "header_pat line")
  case (Some g)
  assume inv: "thread_inv s"
  let ?t = "\<lparr>thread_id = thread_counter s + 1, thread_source = strip g,
             started = [], messages = [], participants = []\<rparr>"
  have "sorted_wrt (<) (map thread_id (flush_thread (threads s) (current_thread s) @ [?t]))"
    using thread_inv_flush [OF inv] by (intro sorted_wrt_snoc_bound) auto
  moreover have "list_all (\<lambda>t. thread_id t \<le> thread_counter s + 1)
      (flush_thread (threads s) (current_thread s) @ [?t])"
    using list_all_bound_mono [OF thread_inv_flush(2) [OF inv], of "thread_counter s + 1"]
    by simp
  ultimately show ?thesis
    using Some by (simp add: thread_line_def thread_inv_def all_threads_def)
next
  case None
  note h = None
  assume inv: "thread_inv s"
  show ?thesis
  proof (cases "current_thread s")
    case None
    note c = None
    show ?thesis
    proof (cases "msg_pat line")
      case None
      with h c inv show ?thesis by (simp add: thread_line_def split: option.splits)
    next
      case (Some r)
      obtain ts sender g3 where r: "r = (ts, sender, g3)" by (cases r)
      obtain body source where sp: "split_source g3 = (body, source)" by (cases "split_source g3")
      from inv c have "sorted_wrt (<) (map thread_id (threads s))"
        and b: "list_all (\<lambda>t. thread_id t \<le> thread_counter s) (threads s)"
        by (simp_all add: thread_inv_def all_threads_def)
      then have "sorted_wrt (<) (map thread_id (threads s) @ [Suc (thread_counter s)])"
        by (auto simp: sorted_wrt_append list_all_iff)
      moreover have "list_all (\<lambda>t. thread_id t \<le> thread_counter s + 1) (threads s)"
        using list_all_bound_mono [OF b] by simp
      ultimately show ?thesis
        using h c Some r sp
        by (simp add: thread_line_def thread_inv_def all_threads_def Let_def)
    qed
  next
    case (Some t)
    note c = Some
    show ?thesis
    proof (cases "started_pat line")
      case (Some g)
      with h c inv show ?thesis
        by (simp add: thread_line_def thread_inv_def all_threads_def)
    next
      case None
      note st = None
      show ?thesis
      proof (cases "msg_pat line")
        case None
        with h c st inv show ?thesis by (simp add: thread_line_def)
      next
        case (Some r)
        obtain ts sender g3 where r: "r = (ts, sender, g3)" by (cases r)
        obtain body source where sp: "split_source g3 = (body, source)"
          by (cases "split_source g3")
        from h c st Some r sp inv show ?thesis
          by (simp add: thread_line_def thread_inv_def all_threads_def Let_def)
      qed
    qed
  qed
qed

lemma thread_inv_foldl: "thread_inv s \<Longrightarrow> thread_inv (foldl thread_line s lines)"
  by (induction lines arbitrary: s) (simp_all add: thread_inv_step)

lemma thread_inv_init:
  "thread_inv \<lparr>threads = [], current_thread = None, thread_counter = 0\<rparr>"
  by (simp add: thread_inv_def all_threads_def)

lemma update_fresh: "k \<notin> fst ` set d \<Longrightarrow> AList.update k v d = d @ [(k, v)]"
  by (induction d) auto

lemma foldl_update_distinct:
  "distinct (map fst d @ map thread_id ths) \<Longrightarrow>
   foldl (\<lambda>d t. AList.update (thread_id t) (messages t) d) d ths =
     d @ map (\<lambda>t. (thread_id t, messages t)) ths"
proof (induction ths arbitrary: d)
  case Nil
  show ?case by simp
next
  case (Cons t ths)
  from Cons.prems have "thread_id t \<notin> fst ` set d" by auto
  then have u: "AList.update (thread_id t) (messages t) d = d @ [(thread_id t, messages t)]"
    by (rule update_fresh)
  from Cons.prems have "distinct (map fst (d @ [(thread_id t, messages t)]) @ map thread_id ths)"
    by auto
  from Cons.IH [OF this] u show ?case by simp
qed

lemma get_thread_messages_distinct:
  assumes "distinct (map thread_id ths)" "t \<in> set ths"
  shows "get_thread_messages (map (\<lambda>t. (thread_id t, messages t)) ths) (thread_id t) = messages t"
proof -
  have "distinct (map fst (map (\<lambda>t. (thread_id t, messages t)) ths))"
    using assms(1) by (simp add: comp_def)
  moreover have "(thread_id t, messages t) \<in> set (map (\<lambda>t. (thread_id t, messages t)) ths)"
    using assms(2) by auto
  ultimately have "map_of (map (\<lambda>t. (thread_id t, messages t)) ths) (thread_id t) =
      Some (messages t)"
    by (rule map_of_is_SomeI)
  then show ?thesis by (simp add: get_thread_messages_def)
qed

section \<open>Facts about primary matching\<close>

lemma last_names_eval:
  "last_names = [''peters'', ''wood'', ''woods'', ''bishop'', ''brown'', ''knisley'', ''quinn'',
     ''quinn'', ''hayes'']"
  by code_simp

lemma last_names_unmatched:
  "list_all (\<lambda>n. 3 \<le> length n \<and> direct_match n = None \<and> alias_match n = None \<and>
      partial_match n = None)
     [''peters'', ''wood'', ''woods'', ''bishop'', ''brown'', ''knisley'', ''quinn'',
      ''quinn'', ''hayes'']"
  by code_simp

lemma woods_example:
  "''Wendi Woods'' \<in> set primary_names \<and>
   length (py_split (normalize_name ''Wendi Woods'')) \<ge> 2 \<and>
   normalize_name ''Woods'' = last (py_split (normalize_name ''Wendi Woods''))"
  by code_simp

section \<open>Facts about the record store queries\<close>

lemma find_node_None: "nid \<notin> node_id ` set ns \<Longrightarrow> find_node nid ns = None"
  by (auto simp: find_node_def find_None_iff)

lemma map_of_absent: "k \<notin> fst ` set xs \<Longrightarrow> map_of xs k = None"
  by (simp add: map_of_eq_None_iff)



lemma set_filter_if: "set (filter_if c P xs) \<subseteq> set xs"
  by (auto simp: filter_if_def)







lemma sample_unknown_ids:
  "''nokia-3310'' \<notin> fst ` set (cellebrite_data sample_store) \<and>
   ''nokia-3310'' \<notin> fst ` set (axiom_index sample_store) \<and>
   ''nokia-3310'' \<notin> fst ` set (merged_device_map sample_db) \<and>
   ''nokia-3310'' \<notin> fst ` set (devices_table sample_db) \<and>
   ''000000000000'' \<notin> node_id ` set (nd_nodes sample_network)"
  by (simp add: sample_store_def sample_db_def sample_network_def new_node_def)




section \<open>Claims\<close>


text \<open>
  Claim C6. Round trip of the chat grammar: when a line is accepted by the chat parser and
  the parsed record has a non-empty source, writing the record back as
  \<open>- [timestamp] **sender**: body (source)\<close> and parsing that line again gives a record
  with the same timestamp, sender, body and source.
\<close>

theorem chat_round_trip:
  assumes "chat_record line = Some m" and "msg_source m \<noteq> []"
  shows "chat_record (chat_line m) = Some m"
proof -
  from assms(1) obtain ts sender g3 body source where
    mp: "msg_pat line = Some (ts, sender, g3)" and sp: "split_source g3 = (body, source)"
    and m: "m = \<lparr>msg_timestamp = ts, msg_sender = sender, msg_body = body, msg_source = source\<rparr>"
    by (auto simp: chat_record_def split: option.splits prod.splits)
  from assms(2) m have sne: "source \<noteq> []" by simp
  from msg_patD [OF mp] obtain d t where ts: "ts = d @ t" and d: "iso_date_T d"
    and t: "t \<noteq> []" "CHR '']'' \<notin> set t" and snd: "CHR ''*'' \<notin> set sender"
    and g3: "CHR 0x0A \<notin> set g3"
    by blast
  from split_sourceD [OF sp sne] have b: "body \<noteq> []" "strip body = body"
    and s: "CHR ''('' \<notin> set source" and sub: "set body \<subseteq> set g3" "set source \<subseteq> set g3"
    by auto
  let ?g = "body @ '' ('' @ source @ '')''"
  have "?g \<noteq> []" using b(1) by simp
  moreover have "CHR 0x0A \<notin> set ?g" using g3 sub by auto
  ultimately have "msg_pat (''- ['' @ d @ t @ ''] **'' @ sender @ ''**: '' @ ?g) =
      Some (d @ t, sender, ?g)"
    using d t snd by (intro msg_pat_build)
  then have "msg_pat (chat_line m) = Some (ts, sender, ?g)"
    by (simp add: chat_line_def m ts)
  moreover have "split_source ?g = (body, source)" using b s by (rule split_source_build)
  ultimately show ?thesis by (simp add: chat_record_def m)
qed

theorem chat_round_trip_witness:
  "chat_record ''- [2021-08-06T21:07:24+00:00] **Wendi**: Added to MCUA group (Signal)'' =
     Some \<lparr>msg_timestamp = ''2021-08-06T21:07:24+00:00'', msg_sender = ''Wendi'',
       msg_body = ''Added to MCUA group'', msg_source = ''Signal''\<rparr> \<and>
   msg_source \<lparr>msg_timestamp = ''2021-08-06T21:07:24+00:00'', msg_sender = ''Wendi'',
       msg_body = ''Added to MCUA group'', msg_source = ''Signal''\<rparr> \<noteq> [] \<and>
   chat_record (chat_line \<lparr>msg_timestamp = ''2021-08-06T21:07:24+00:00'', msg_sender = ''Wendi'',
       msg_body = ''Added to MCUA group'', msg_source = ''Signal''\<rparr>) =
     Some \<lparr>msg_timestamp = ''2021-08-06T21:07:24+00:00'', msg_sender = ''Wendi'',
       msg_body = ''Added to MCUA group'', msg_source = ''Signal''\<rparr>"
proof -
  let ?m = "\<lparr>msg_timestamp = ''2021-08-06T21:07:24+00:00'', msg_sender = ''Wendi'',
       msg_body = ''Added to MCUA group'', msg_source = ''Signal''\<rparr>"
  have b: "msg_source ?m \<noteq> []" by simp
  show ?thesis
    by (rule conjI [OF chat_record_example
          conjI [OF b chat_round_trip [OF chat_record_example b]]])
qed

text \<open>
  Claim C10. The flat message parser and the thread parser agree on every chat export file:
  the records of \<open>parse_chats\<close> are the concatenation, in thread order, of the per-thread
  message lists of \<open>parse_chat_threads\<close> (looked up by thread number in the returned
  dictionary), and the threads' \<open>message_count\<close> values add up to the number of records.
\<close>

theorem threads_agree_with_flat_parser:
  "concat (map (\<lambda>sm. get_thread_messages (snd (parse_chat_threads lines)) (sm_thread_id sm))
             (fst (parse_chat_threads lines))) = parse_chats lines \<and>
   sum_list (map message_count (fst (parse_chat_threads lines))) = length (parse_chats lines)"
proof -
  define s where "s = foldl thread_line
      \<lparr>threads = [], current_thread = None, thread_counter = 0\<rparr> lines"
  define ths where "ths = flush_thread (threads s) (current_thread s)"
  have inv: "thread_inv s" unfolding s_def by (rule thread_inv_foldl) (rule thread_inv_init)
  have "sorted_wrt (<) (map thread_id ths)" unfolding ths_def by (rule thread_inv_flush [OF inv])
  then have dist: "distinct (map thread_id ths)" by (simp add: strict_sorted_iff)
  have fstp: "fst (parse_chat_threads lines) = map summarize ths"
    by (simp add: parse_chat_threads_def Let_def s_def ths_def)
  have "snd (parse_chat_threads lines) =
      foldl (\<lambda>d t. AList.update (thread_id t) (messages t) d) [] ths"
    by (simp add: parse_chat_threads_def Let_def s_def ths_def)
  also have "\<dots> = map (\<lambda>t. (thread_id t, messages t)) ths"
    using foldl_update_distinct [of "[]" ths] dist by simp
  finally have sndp: "snd (parse_chat_threads lines) = map (\<lambda>t. (thread_id t, messages t)) ths" .
  have msgs: "concat (map messages ths) = parse_chats lines"
    unfolding ths_def concat_flush
    using foldl_thread_line_messages
      [of "\<lparr>threads = [], current_thread = None, thread_counter = 0\<rparr>" lines]
    by (simp add: all_threads_def s_def parse_chats_eq)
  have "map (\<lambda>sm. get_thread_messages (snd (parse_chat_threads lines)) (sm_thread_id sm))
      (fst (parse_chat_threads lines)) = map messages ths"
    unfolding fstp sndp
    by (simp add: summarize_def Let_def get_thread_messages_distinct [OF dist])
  with msgs have one: "concat (map (\<lambda>sm. get_thread_messages (snd (parse_chat_threads lines))
      (sm_thread_id sm)) (fst (parse_chat_threads lines))) = parse_chats lines"
    by simp
  have "sum_list (map message_count (fst (parse_chat_threads lines))) =
      sum_list (map (\<lambda>t. length (messages t)) ths)"
    by (simp add: fstp summarize_def Let_def comp_def)
  also have "\<dots> = length (concat (map messages ths))"
    by (simp add: length_concat comp_def)
  finally have two: "sum_list (map message_count (fst (parse_chat_threads lines))) =
      length (parse_chats lines)" by (simp add: msgs)
  from one two show ?thesis by simp
qed

text \<open>
  Claim C7. Last-name-only inputs are rejected: when the normalised input equals the last
  token of a primary participant's multi-token normalised name, \<open>match_primary\<close> returns
  \<open>None\<close>. (No such last token is itself a primary name or a curated alias, so the claim's
  two exclusions hold for every such input and are not needed as hypotheses.)
\<close>

theorem last_name_only_rejected:
  assumes "primary \<in> set primary_names"
    and "length (py_split (normalize_name primary)) \<ge> 2"
    and "normalize_name name = last (py_split (normalize_name primary))"
  shows "match_primary name = None"
proof -
  from assms have "normalize_name name \<in> set last_names"
    by (auto simp: last_names_def)
  then have "3 \<le> length (normalize_name name) \<and> direct_match (normalize_name name) = None \<and>
      alias_match (normalize_name name) = None \<and> partial_match (normalize_name name) = None"
    using last_names_unmatched unfolding last_names_eval list_all_iff by blast
  then show ?thesis by (auto simp: match_primary_def Let_def)
qed

theorem last_name_only_rejected_witness:
  "''Wendi Woods'' \<in> set primary_names \<and>
   length (py_split (normalize_name ''Wendi Woods'')) \<ge> 2 \<and>
   normalize_name ''Woods'' = last (py_split (normalize_name ''Wendi Woods'')) \<and>
   match_primary ''Woods'' = None"
proof -
  note e = woods_example
  have "match_primary ''Woods'' = None"
    by (rule last_name_only_rejected [OF conjunct1 [OF e] conjunct1 [OF conjunct2 [OF e]]
          conjunct2 [OF conjunct2 [OF e]]])
  with e show ?thesis by blast
qed

text \<open>
  Claim C1 (edge weight equals the sum of the contribution counts) fails on the example
  corpus: step 6 of \<open>build_network\<close> raises the \<open>shared_contact\<close> count of the edge between
  the two phone owners for the second common contact, but not the edge's weight. Each edge is
  shown as source, target, weight and sum of its contribution counts.
\<close>

theorem build_network_weight_mismatch:
  "map (\<lambda>e. (edge_source e, edge_target e, weight e, sum_list (map contribution_count (types e))))
     (nd_edges (build_network md5hex_sample [] sample_contacts [] [])) =
   [(''1be1829ea910'', ''2adc83bfb66e'', 1, 1),
    (''23d6d3a9c769'', ''2adc83bfb66e'', 1, 1),
    (''1be1829ea910'', ''991bab3fde1b'', 1, 1),
    (''23d6d3a9c769'', ''991bab3fde1b'', 1, 1),
    (''1be1829ea910'', ''23d6d3a9c769'', 1, 2)]"
  by code_simp

text \<open>
  Claim C9. A query for an unknown identifier returns an empty or null result: for a device
  identifier that the store does not hold, \<open>get_device_data\<close> (of the in-memory store and of
  the relational store) returns zero records and total 0, as a value; for a person identifier
  that is no node of the graph, \<open>get_person_details\<close> returns \<open>None\<close>.
\<close>

theorem unknown_identifiers_give_empty_results:
  assumes "device_id \<notin> fst ` set (cellebrite_data st)"
    and "device_id \<notin> fst ` set (axiom_index st)"
    and "device_id \<notin> fst ` set (merged_device_map db)"
    and "device_id \<notin> fst ` set (devices_table db)"
    and "person_id \<notin> node_id ` set (nd_nodes network)"
  shows "store_get_device_data rd st device_id category page per_page query date_from date_to =
           \<lparr>pr_records = [], pr_total = 0, pr_page = page, pr_per_page = per_page\<rparr> \<and>
         db_get_device_data rd db device_id category page per_page query date_from date_to =
           Inr \<lparr>pr_records = [], pr_total = 0, pr_page = page, pr_per_page = per_page\<rparr> \<and>
         get_person_details person_id network = None"
  using assms
  by (simp add: store_get_device_data_def db_get_device_data_def resolve_device_ids_def
      get_person_details_def map_of_absent find_node_None)

theorem unknown_identifiers_witness:
  "''nokia-3310'' \<notin> fst ` set (cellebrite_data sample_store) \<and>
   ''nokia-3310'' \<notin> fst ` set (devices_table sample_db) \<and>
   ''000000000000'' \<notin> node_id ` set (nd_nodes sample_network) \<and>
   store_get_device_data sample_renderers sample_store ''nokia-3310'' (Some ''chats'') 1 100
       None None None =
     \<lparr>pr_records = [], pr_total = 0, pr_page = 1, pr_per_page = 100\<rparr> \<and>
   db_get_device_data sample_renderers sample_db ''nokia-3310'' (Some ''chats'') 1 100
       None None None =
     Inr \<lparr>pr_records = [], pr_total = 0, pr_page = 1, pr_per_page = 100\<rparr> \<and>
   get_person_details ''000000000000'' sample_network = None"
proof -
  note h = sample_unknown_ids
  from h have h1: "''nokia-3310'' \<notin> fst ` set (cellebrite_data sample_store)"
    and h2: "''nokia-3310'' \<notin> fst ` set (axiom_index sample_store)"
    and h3: "''nokia-3310'' \<notin> fst ` set (merged_device_map sample_db)"
    and h4: "''nokia-3310'' \<notin> fst ` set (devices_table sample_db)"
    and h5: "''000000000000'' \<notin> node_id ` set (nd_nodes sample_network)"
    by blast+
  note t = unknown_identifiers_give_empty_results [OF h1 h2 h3 h4 h5,
      where rd = sample_renderers and category = "Some ''chats''" and page = 1
        and per_page = 100 and query = None and date_from = None and date_to = None]
  show ?thesis
    by (rule conjI [OF h1 conjI [OF h4 conjI [OF h5 t]]])
qed




end
